theory Spec2Isabelle
  imports Main
begin

section \<open>Python values and dictionaries\<close>

text \<open>
  The values that occur in statement entries and in the records read back from the chain:
  \<open>None\<close>, booleans and strings. \<open>truthy\<close> is Python's truth test, as used by
  \<open>if x:\<close>, \<open>x and y\<close> and \<open>x if x else None\<close>.
\<close>

datatype pyval = PNone | PBool bool | PStr string

fun truthy :: "pyval \<Rightarrow> bool" where
  "truthy PNone = False"
| "truthy (PBool b) = b"
| "truthy (PStr s) = (s \<noteq> [])"

text \<open>
  A dictionary with string keys is an association list read with \<open>map_of\<close>.
  \<open>subscript d k\<close> is \<open>d[k]\<close>, which raises \<open>KeyError\<close> on a missing key;
  \<open>dict_get d k\<close> is \<open>d.get(k)\<close>, which gives \<open>None\<close> there.
\<close>

type_synonym pydict = "(string \<times> pyval) list"

definition dict_get :: "pydict \<Rightarrow> string \<Rightarrow> pyval" where
  "dict_get d k = (case map_of d k of None \<Rightarrow> PNone | Some v \<Rightarrow> v)"

text \<open>
  An optional string argument (\<open>x: str = None\<close>). \<open>arg_value\<close> is the Python value
  passed, \<open>supplied\<close> the truth test \<open>if x:\<close> on it: false for \<open>None\<close> and for
  the empty string.
\<close>

definition arg_value :: "string option \<Rightarrow> pyval" where
  "arg_value a = (case a of None \<Rightarrow> PNone | Some s \<Rightarrow> PStr s)"

definition supplied :: "string option \<Rightarrow> bool" where
  "supplied a = truthy (arg_value a)"

section \<open>Statement entries: packages/statement/src/statement.py\<close>

subsection \<open>Errors and collaborators\<close>

text \<open>
  The exceptions of the shape check and the builders. \<open>ValueError\<close> is what the
  docstring of \<open>verify_data_structure\<close> names for a digest that is not 256-bit hex.
\<close>

datatype stmt_exc =
    StatementHashMissingError
  | InvalidIdentifierError
  | ValueError
  | KeyError string

definition subscript :: "pydict \<Rightarrow> string \<Rightarrow> stmt_exc + pyval" where
  "subscript d k = (case map_of d k of None \<Rightarrow> Inl (KeyError k) | Some v \<Rightarrow> Inr v)"

text \<open>
  Modelled from the spec: \<open>check_identifier\<close> (packages/identifier) is not among the
  sources. The spec gives \<open>check_identifier(uri)\<close>: fails with \<open>InvalidIdentifier\<close> if
  malformed. Which values are well-formed is the parameter \<open>wf_id\<close>.
\<close>

definition check_identifier :: "(pyval \<Rightarrow> bool) \<Rightarrow> pyval \<Rightarrow> stmt_exc + unit" where
  "check_identifier wf_id uri = (if wf_id uri then Inr () else Inl InvalidIdentifierError)"

text \<open>
  Modelled from the spec: \<open>data_utils.verify_is_hex\<close> (packages/utils) is not among the
  sources. The spec gives \<open>verify_is_hex(value, bit_length)\<close>: fails if the value is not
  exactly \<open>bit_length\<close> bits of hex. Which values are is the parameter \<open>is_hex\<close>.
\<close>

definition verify_is_hex :: "(pyval \<Rightarrow> nat \<Rightarrow> bool) \<Rightarrow> pyval \<Rightarrow> nat \<Rightarrow> stmt_exc + unit" where
  "verify_is_hex is_hex v bits = (if is_hex v bits then Inr () else Inl ValueError)"

subsection \<open>verify_data_structure\<close>

definition verify_data_structure ::
  "(pyval \<Rightarrow> bool) \<Rightarrow> (pyval \<Rightarrow> nat \<Rightarrow> bool) \<Rightarrow> pydict \<Rightarrow> stmt_exc + unit" where
  "verify_data_structure wf_id is_hex input =
     (if map_of input ''digest'' = None then Inl StatementHashMissingError
      else
        (case subscript input ''space_uri'' of
           Inl e \<Rightarrow> Inl e
         | Inr space \<Rightarrow>
            (case check_identifier wf_id space of
               Inl e \<Rightarrow> Inl e
             | Inr _ \<Rightarrow>
                (case (if map_of input ''schema_uri'' \<noteq> None \<and> truthy (dict_get input ''schema_uri'')
                       then check_identifier wf_id (dict_get input ''schema_uri'')
                       else Inr ()) of
                   Inl e \<Rightarrow> Inl e
                 | Inr _ \<Rightarrow>
                    (case subscript input ''digest'' of
                       Inl e \<Rightarrow> Inl e
                     | Inr dg \<Rightarrow> verify_is_hex is_hex dg 256)))))"

subsection \<open>build_from_properties and build_from_update_properties\<close>


definition build_from_update_properties ::
  "(string \<Rightarrow> string \<Rightarrow> stmt_exc + string) \<Rightarrow> (pyval \<Rightarrow> bool) \<Rightarrow>
   (pyval \<Rightarrow> nat \<Rightarrow> bool) \<Rightarrow> string \<Rightarrow> string \<Rightarrow> string \<Rightarrow> string \<Rightarrow>
   stmt_exc + pydict" where
  "build_from_update_properties update_uri wf_id is_hex stmt_uri digest space_uri creator_uri =
     (case update_uri stmt_uri digest of
        Inl e \<Rightarrow> Inl e
      | Inr statement_uri \<Rightarrow>
         (let statement =
            [(''element_uri'', PStr statement_uri),
             (''digest'', PStr digest),
             (''creator_uri'', PStr creator_uri),
             (''space_uri'', PStr space_uri)]
          in (case verify_data_structure wf_id is_hex statement of
                Inl e \<Rightarrow> Inl e
              | Inr _ \<Rightarrow> Inr statement)))"

section \<open>Verification against the chain: verify_against_properties\<close>

text \<open>
  The result dictionary \<open>{'is_valid': ..., 'message': ...}\<close>.
\<close>

record verification =
  is_valid :: bool
  message :: string

definition invalid :: "string \<Rightarrow> verification" where
  "invalid m = \<lparr>is_valid = False, message = m\<rparr>"

definition valid :: "string \<Rightarrow> verification" where
  "valid m = \<lparr>is_valid = True, message = m\<rparr>"

text \<open>
  A raised Python exception, as far as the handler \<open>except Exception as error\<close> and the
  f-string \<open>{error}\<close> can tell exceptions apart: \<open>Exception m\<close> is an instance of the class
  \<open>Exception\<close> (of any subclass) whose \<open>str()\<close> is \<open>m\<close>; \<open>BaseException m\<close> is an
  instance of \<open>BaseException\<close> that is not an \<open>Exception\<close> (\<open>asyncio.CancelledError\<close>,
  \<open>KeyboardInterrupt\<close>, \<open>SystemExit\<close>), which that handler does not catch.
\<close>

datatype raised = Exception string | BaseException string

text \<open>
  \<open>str(KeyError(k))\<close> is the \<open>repr\<close> of the key: the key between single quotes, for the
  keys used here, which hold neither quotes nor backslashes.
\<close>

definition key_error :: "string \<Rightarrow> raised" where
  "key_error k = Exception (CHR 0x27 # k @ [CHR 0x27])"

definition status_item :: "pydict \<Rightarrow> string \<Rightarrow> raised + pyval" where
  "status_item d k = (case map_of d k of None \<Rightarrow> Inl (key_error k) | Some v \<Rightarrow> Inr v)"

text \<open>
  The body of the \<open>try\<close> block. \<open>fetch_statement_details_from_chain\<close> (statement_chain)
  is not among the sources; what the awaited call did, raise or return \<open>None\<close> or a
  dictionary, is the argument \<open>fetched\<close>. \<open>not statement_status\<close> holds for \<open>None\<close> and
  for the empty dictionary.
\<close>

definition verify_try ::
  "raised + pydict option \<Rightarrow> string \<Rightarrow> string \<Rightarrow> string option \<Rightarrow> string option \<Rightarrow>
   string option \<Rightarrow> raised + verification" where
  "verify_try fetched stmt_uri digest creator space_uri schema_uri =
     (case fetched of
        Inl e \<Rightarrow> Inl e
      | Inr None \<Rightarrow>
          Inr (invalid (''Statement details for '' @ [CHR 0x22] @ digest @ [CHR 0x22] @ '' not found.''))
      | Inr (Some statement_status) \<Rightarrow>
          if statement_status = [] then
            Inr (invalid (''Statement details for '' @ [CHR 0x22] @ digest @ [CHR 0x22] @ '' not found.''))
          else
          (case status_item statement_status ''digest'' of
             Inl e \<Rightarrow> Inl e
           | Inr remote_digest \<Rightarrow>
              if PStr digest \<noteq> remote_digest then
                Inr (invalid ''Digest does not match with Statement Digest.'')
              else if truthy (dict_get statement_status ''revoked'') then
                Inr (invalid (''Statement '' @ [CHR 0x22] @ stmt_uri @ [CHR 0x22] @ '' Revoked.''))
              else
              (case (if supplied creator then status_item statement_status ''creator_uri''
                     else Inr PNone) of
                 Inl e \<Rightarrow> Inl e
               | Inr remote_creator \<Rightarrow>
                  if supplied creator \<and> arg_value creator \<noteq> remote_creator then
                    Inr (invalid ''Statement and Digest creator does not match.'')
                  else
                  (case (if supplied space_uri then status_item statement_status ''space_uri''
                         else Inr PNone) of
                     Inl e \<Rightarrow> Inl e
                   | Inr remote_space \<Rightarrow>
                      if supplied space_uri \<and> arg_value space_uri \<noteq> remote_space then
                        Inr (invalid ''Statement and Digest space details does not match.'')
                      else
                      (case (if supplied schema_uri then status_item statement_status ''schema_uri''
                             else Inr PNone) of
                         Inl e \<Rightarrow> Inl e
                       | Inr remote_schema \<Rightarrow>
                          if supplied schema_uri \<and> arg_value schema_uri \<noteq> remote_schema then
                            Inr (invalid ''Statement and Digest schema details does not match.'')
                          else
                            Inr (valid ''Digest properties provided are valid and match the statement details.''))))))"

text \<open>
  The whole function: the \<open>try\<close> block under \<open>except Exception as error\<close>. An exception
  outside the class \<open>Exception\<close> passes through the handler.
\<close>

definition verify_against_properties ::
  "(string \<Rightarrow> raised + pydict option) \<Rightarrow> string \<Rightarrow> string \<Rightarrow> string option \<Rightarrow>
   string option \<Rightarrow> string option \<Rightarrow> raised + verification" where
  "verify_against_properties fetch_statement_details_from_chain stmt_uri digest creator space_uri schema_uri =
     (case verify_try (fetch_statement_details_from_chain stmt_uri) stmt_uri digest creator
             space_uri schema_uri of
        Inr result \<Rightarrow> Inr result
      | Inl (Exception error) \<Rightarrow> Inr (invalid (''Error verifying properties: '' @ error))
      | Inl (BaseException error) \<Rightarrow> Inl (BaseException error))"

text \<open>
  The reading of the checks to compare \<open>verify_try\<close> with: a list of checks, each with its
  message, run in the order of the list. A check fails, passes, or raises because it reads
  a field that the remote record lacks; the first check that fails or raises ends the run,
  the later ones are not looked at, and when all pass the statement is valid.
  \<open>spec_differs\<close> compares a value with a field of the remote record; \<open>spec_mismatch\<close>
  is the check on an optional argument, made only when the argument is a non-empty string.
\<close>

fun spec_first_failing :: "((raised + bool) \<times> string) list \<Rightarrow> raised + verification" where
  "spec_first_failing [] =
     Inr (valid ''Digest properties provided are valid and match the statement details.'')"
| "spec_first_failing ((Inl e, m) # checks) = Inl e"
| "spec_first_failing ((Inr failed, m) # checks) =
     (if failed then Inr (invalid m) else spec_first_failing checks)"

definition spec_differs :: "string \<Rightarrow> pydict \<Rightarrow> string \<Rightarrow> raised + bool" where
  "spec_differs s remote key =
     (case map_of remote key of None \<Rightarrow> Inl (key_error key) | Some v \<Rightarrow> Inr (PStr s \<noteq> v))"

definition spec_mismatch :: "string option \<Rightarrow> pydict \<Rightarrow> string \<Rightarrow> raised + bool" where
  "spec_mismatch arg remote key =
     (case arg of
        None \<Rightarrow> Inr False
      | Some s \<Rightarrow> if s = [] then Inr False else spec_differs s remote key)"

section \<open>Connection management: packages/config/src/config.py\<close>

text \<open>
  The process: the configuration held by \<open>ConfigService\<close>, a dictionary from keys to
  object references; the references on which \<open>close()\<close> has been called, in order; and
  the lines written through \<open>logger.info\<close>.
\<close>

type_synonym ref = nat

record process =
  config :: "(string \<times> ref) list"
  closed :: "ref list"
  log :: "string list"

text \<open>
  Modelled from the spec: \<open>ConfigService\<close> (packages/config/src/service.py) is not among
  the sources. The spec has \<open>init\<close> replace the process-wide configuration state wholesale
  with the supplied mapping, \<open>disconnect\<close> test whether a handle is stored, and remove it
  from the state: \<open>set\<close> replaces the configuration, \<open>is_set\<close> tests a key, \<open>get\<close> reads
  it (\<open>None\<close> when there is none) and \<open>unset\<close> removes it.
\<close>

definition ConfigService_set :: "(string \<times> ref) list \<Rightarrow> process \<Rightarrow> process" where
  "ConfigService_set configs p = p\<lparr>config := configs\<rparr>"

definition ConfigService_is_set :: "string \<Rightarrow> process \<Rightarrow> bool" where
  "ConfigService_is_set key p = (map_of (config p) key \<noteq> None)"

definition ConfigService_get :: "string \<Rightarrow> process \<Rightarrow> ref option" where
  "ConfigService_get key p = map_of (config p) key"

definition ConfigService_unset :: "string \<Rightarrow> process \<Rightarrow> process" where
  "ConfigService_unset key p = p\<lparr>config := filter (\<lambda>kv. fst kv \<noteq> key) (config p)\<rparr>"

text \<open>
  Modelled from the spec: the transport's \<open>close(handle)\<close> (substrateinterface) releases the
  connection and returns; here it records the reference as closed.
\<close>

definition close :: "ref \<Rightarrow> process \<Rightarrow> process" where
  "close api p = p\<lparr>closed := closed p @ [api]\<rparr>"

text \<open>
  The exceptions of \<open>connect\<close> and \<open>disconnect\<close>, as far as the handler
  \<open>except SubstrateRequestException as e\<close> tells them apart, each with its \<open>str()\<close>.
\<close>

datatype conn_exc = SubstrateRequestException string | OtherError string

definition init :: "(string \<times> ref) list option \<Rightarrow> process \<Rightarrow> process" where
  "init configs p =
     ConfigService_set (case configs of None \<Rightarrow> [] | Some c \<Rightarrow> if c = [] then [] else c) p"

text \<open>
  \<open>load_type_registry_file\<close> (scalecodec) and the constructor \<open>SubstrateInterface\<close>
  (substrateinterface) are the parameters \<open>load_type_registry_file\<close> and
  \<open>substrate_interface\<close>: each returns its value or raises.
\<close>

definition connect ::
  "(string \<Rightarrow> conn_exc + 'r) \<Rightarrow> (string \<Rightarrow> 'o \<Rightarrow> 'r \<Rightarrow> conn_exc + ref) \<Rightarrow>
   string \<Rightarrow> bool \<Rightarrow> 'o \<Rightarrow> process \<Rightarrow> (conn_exc + ref) \<times> process" where
  "connect load_type_registry_file substrate_interface blockchain_rpc_ws_url no_init_warn api_options p =
     (case (case load_type_registry_file ''custom-type.json'' of
              Inl e \<Rightarrow> Inl e
            | Inr custom_type \<Rightarrow> substrate_interface blockchain_rpc_ws_url api_options custom_type) of
        Inr substrate \<Rightarrow> (Inr substrate, init (Some [(''api'', substrate)]) p)
      | Inl (SubstrateRequestException m) \<Rightarrow>
          (Inl (SubstrateRequestException m),
           p\<lparr>log := log p @ [''Error connecting to blockchain: '' @ m]\<rparr>)
      | Inl (OtherError m) \<Rightarrow> (Inl (OtherError m), p))"

text \<open>
  \<open>api.close()\<close> on \<open>None\<close> would raise \<open>AttributeError\<close>; that branch is kept.
\<close>

definition disconnect :: "process \<Rightarrow> (conn_exc + bool) \<times> process" where
  "disconnect p =
     (if \<not> ConfigService_is_set ''api'' p then (Inr False, p)
      else
        (case ConfigService_get ''api'' p of
           None \<Rightarrow> (Inl (OtherError ''AttributeError''), ConfigService_unset ''api'' p)
         | Some api \<Rightarrow> (Inr True, close api (ConfigService_unset ''api'' p))))"

section \<open>Properties of the verification against the chain\<close>

subsection \<open>Auxiliary facts about the checks\<close>

lemma status_item_Some: "map_of d k = Some v \<Longrightarrow> status_item d k = Inr v"
  by (simp add: status_item_def)

lemma dict_get_Some: "map_of d k = Some v \<Longrightarrow> dict_get d k = v"
  by (simp add: dict_get_def)

lemma verify_try_creator_mismatch:
  "d \<noteq> [] \<Longrightarrow> map_of d ''digest'' = Some (PStr digest) \<Longrightarrow> \<not> truthy (dict_get d ''revoked'') \<Longrightarrow>
   supplied creator \<Longrightarrow> map_of d ''creator_uri'' = Some rc \<Longrightarrow> arg_value creator \<noteq> rc \<Longrightarrow>
   verify_try (Inr (Some d)) stmt_uri digest creator space_uri schema_uri =
     Inr (invalid ''Statement and Digest creator does not match.'')"
  by (simp add: verify_try_def status_item_Some)

lemma verify_against_of_try:
  "verify_try (fetch stmt_uri) stmt_uri digest creator space_uri schema_uri = Inr r \<Longrightarrow>
   verify_against_properties fetch stmt_uri digest creator space_uri schema_uri = Inr r"
  by (simp add: verify_against_properties_def)

lemma verify_try_raises_fetch_or_key_error:
  assumes "verify_try fetched stmt_uri digest creator space_uri schema_uri = Inl e"
  shows "fetched = Inl e \<or> (\<exists>k. e = key_error k)"
  using assms
  by (auto simp: verify_try_def status_item_def split: sum.splits option.splits if_splits)

subsection \<open>The order of the checks\<close>

text \<open>
  C1, as stated, fails in two ways. The checks on the creator, the space and the schema
  are guarded by a truth test, so an empty-string creator that differs from the remote
  creator is not the first failing check: the space mismatch decides. And a check reads
  its field of the remote record only when it is reached, so a record without
  \<open>creator_uri\<close> asked about a creator gives neither that check's message nor a later
  one, but the error result of the handler.
\<close>

theorem verify_against_properties_check_order_counterexample:
  "verify_against_properties
     (\<lambda>uri. Inr (Some [(''digest'', PStr ''0xAA''), (''creator_uri'', PStr ''did:c1''),
                        (''space_uri'', PStr ''space:s1''), (''schema_uri'', PStr ''schema:x''),
                        (''revoked'', PBool False)]))
     ''stmt:cord:s1'' ''0xAA'' (Some '''') (Some ''space:s2'') None
   = Inr \<lparr>is_valid = False, message = ''Statement and Digest space details does not match.''\<rparr>
   \<and> PStr '''' \<noteq> PStr ''did:c1''
   \<and> verify_against_properties
     (\<lambda>uri. Inr (Some [(''digest'', PStr ''0xAA''), (''space_uri'', PStr ''space:s1''),
                        (''schema_uri'', PStr ''schema:x''), (''revoked'', PBool False)]))
     ''stmt:cord:s1'' ''0xAA'' (Some ''did:c2'') (Some ''space:s2'') None
   = Inr \<lparr>is_valid = False,
          message = ''Error verifying properties: '' @ [CHR 0x27] @ ''creator_uri'' @ [CHR 0x27]\<rparr>"
  by (simp add: verify_against_properties_def verify_try_def status_item_def dict_get_def
        supplied_def arg_value_def invalid_def key_error_def)

text \<open>
  C1, amended. For every statement URI, digest, creator, space and schema, once the fetch
  has returned, \<open>verify_against_properties\<close> performs its checks in the fixed order:
  remote record not found, digest mismatch, revoked flag, creator mismatch, space
  mismatch, schema mismatch, the last three only for a non-empty argument. The first
  failing check determines the returned \<open>{is_valid: false, message}\<close> and short-circuits
  all later checks; a check that is reached and reads a field missing from the remote
  record ends the run too, with the result \<open>"Error verifying properties: '<field>'"\<close>.
  In particular a revoked remote record with a matching digest yields the revocation
  message even when creator, space or schema also mismatch, or are missing from the record.
\<close>

theorem verify_against_properties_check_order:
  assumes fetched: "fetch stmt_uri = Inr status"
    and remote: "remote = (case status of None \<Rightarrow> [] | Some d \<Rightarrow> d)"
  shows "verify_against_properties fetch stmt_uri digest creator space_uri schema_uri =
     (case spec_first_failing
           [(Inr (remote = []),
               ''Statement details for '' @ [CHR 0x22] @ digest @ [CHR 0x22] @ '' not found.''),
            (spec_differs digest remote ''digest'',
               ''Digest does not match with Statement Digest.''),
            (Inr (truthy (dict_get remote ''revoked'')),
               ''Statement '' @ [CHR 0x22] @ stmt_uri @ [CHR 0x22] @ '' Revoked.''),
            (spec_mismatch creator remote ''creator_uri'',
               ''Statement and Digest creator does not match.''),
            (spec_mismatch space_uri remote ''space_uri'',
               ''Statement and Digest space details does not match.''),
            (spec_mismatch schema_uri remote ''schema_uri'',
               ''Statement and Digest schema details does not match.'')] of
        Inr result \<Rightarrow> Inr result
      | Inl (Exception error) \<Rightarrow> Inr (invalid (''Error verifying properties: '' @ error))
      | Inl (BaseException error) \<Rightarrow> Inl (BaseException error))
   \<and> (remote \<noteq> [] \<and> map_of remote ''digest'' = Some (PStr digest)
        \<and> truthy (dict_get remote ''revoked'')
        \<longrightarrow> verify_against_properties fetch stmt_uri digest creator space_uri schema_uri =
              Inr (invalid (''Statement '' @ [CHR 0x22] @ stmt_uri @ [CHR 0x22] @ '' Revoked.'')))"
proof -
  have body: "verify_try (Inr status) stmt_uri digest creator space_uri schema_uri =
      spec_first_failing
           [(Inr (remote = []),
               ''Statement details for '' @ [CHR 0x22] @ digest @ [CHR 0x22] @ '' not found.''),
            (spec_differs digest remote ''digest'',
               ''Digest does not match with Statement Digest.''),
            (Inr (truthy (dict_get remote ''revoked'')),
               ''Statement '' @ [CHR 0x22] @ stmt_uri @ [CHR 0x22] @ '' Revoked.''),
            (spec_mismatch creator remote ''creator_uri'',
               ''Statement and Digest creator does not match.''),
            (spec_mismatch space_uri remote ''space_uri'',
               ''Statement and Digest space details does not match.''),
            (spec_mismatch schema_uri remote ''schema_uri'',
               ''Statement and Digest schema details does not match.'')]"
  proof (cases "remote = []")
    case True
    then have "status = None \<or> status = Some []"
      using remote by (cases status) auto
    then show ?thesis
      using True by (auto simp: verify_try_def)
  next
    case False
    then have st: "status = Some remote"
      using remote by (cases status) auto
    show ?thesis
    proof (cases "map_of remote ''digest''")
      case None
      then show ?thesis
        using False by (simp add: st verify_try_def status_item_def spec_differs_def)
    next
      case (Some remote_digest)
      note dg = Some
      show ?thesis
      proof (cases "PStr digest \<noteq> remote_digest \<or> truthy (dict_get remote ''revoked'')")
        case True
        then show ?thesis
          using \<open>remote \<noteq> []\<close> dg
          by (auto simp: st verify_try_def status_item_def spec_differs_def)
      next
        case False
        show ?thesis
          using False \<open>remote \<noteq> []\<close> dg
          by (cases creator; cases space_uri; cases schema_uri)
            (auto simp: st verify_try_def status_item_def spec_differs_def spec_mismatch_def
               supplied_def arg_value_def split: option.splits)
      qed
    qed
  qed
  have whole: "verify_against_properties fetch stmt_uri digest creator space_uri schema_uri =
     (case spec_first_failing
           [(Inr (remote = []),
               ''Statement details for '' @ [CHR 0x22] @ digest @ [CHR 0x22] @ '' not found.''),
            (spec_differs digest remote ''digest'',
               ''Digest does not match with Statement Digest.''),
            (Inr (truthy (dict_get remote ''revoked'')),
               ''Statement '' @ [CHR 0x22] @ stmt_uri @ [CHR 0x22] @ '' Revoked.''),
            (spec_mismatch creator remote ''creator_uri'',
               ''Statement and Digest creator does not match.''),
            (spec_mismatch space_uri remote ''space_uri'',
               ''Statement and Digest space details does not match.''),
            (spec_mismatch schema_uri remote ''schema_uri'',
               ''Statement and Digest schema details does not match.'')] of
        Inr result \<Rightarrow> Inr result
      | Inl (Exception error) \<Rightarrow> Inr (invalid (''Error verifying properties: '' @ error))
      | Inl (BaseException error) \<Rightarrow> Inl (BaseException error))"
    unfolding verify_against_properties_def fetched body ..
  have revoked: "verify_against_properties fetch stmt_uri digest creator space_uri schema_uri =
        Inr (invalid (''Statement '' @ [CHR 0x22] @ stmt_uri @ [CHR 0x22] @ '' Revoked.''))"
    if "remote \<noteq> []" "map_of remote ''digest'' = Some (PStr digest)"
       "truthy (dict_get remote ''revoked'')"
    unfolding whole using that by (simp add: spec_differs_def)
  show ?thesis
    using whole revoked by blast
qed

text \<open>
  A revoked record that has lost its creator, space and schema, asked about all three:
  the result is the revocation message.
\<close>

theorem verify_against_properties_check_order_witness:
  "verify_against_properties
     (\<lambda>uri. Inr (Some [(''digest'', PStr ''0xAA''), (''revoked'', PBool True)]))
     ''stmt:cord:s1'' ''0xAA'' (Some ''did:c2'') (Some ''space:s2'') (Some ''schema:y'')
   = Inr \<lparr>is_valid = False,
          message = ''Statement '' @ [CHR 0x22] @ ''stmt:cord:s1'' @ [CHR 0x22] @ '' Revoked.''\<rparr>"
  using verify_against_properties_check_order
    [of "\<lambda>uri. Inr (Some [(''digest'', PStr ''0xAA''), (''revoked'', PBool True)])"
        "''stmt:cord:s1''"
        "Some [(''digest'', PStr ''0xAA''), (''revoked'', PBool True)]"
        "[(''digest'', PStr ''0xAA''), (''revoked'', PBool True)]"
        "''0xAA''" "Some ''did:c2''" "Some ''space:s2''" "Some ''schema:y''"]
  by (simp add: dict_get_def invalid_def spec_differs_def)

subsection \<open>Exceptions turned into results\<close>

text \<open>
  C2, as stated, fails: an exception raised by the fetch that is not an instance of
  \<open>Exception\<close> (a cancellation of the awaiting task, an interrupt) is not caught by
  \<open>except Exception\<close> and leaves \<open>verify_against_properties\<close>.
\<close>

theorem verify_against_properties_base_exception_counterexample:
  "verify_against_properties (\<lambda>uri. Inl (BaseException ''''))
      ''stmt:cord:s1'' ''0xAA'' None None None = Inl (BaseException '''')"
  by (simp add: verify_against_properties_def verify_try_def)

text \<open>
  C2, amended. When the fetch raises nothing outside the class \<open>Exception\<close>,
  \<open>verify_against_properties\<close> returns a result for every input: an exception of the
  \<open>try\<close> block, whether raised by the fetch or by reading a field that the remote
  record lacks, becomes \<open>{is_valid: false, message: "Error verifying properties: <error>"}\<close>,
  and a fetch that returns nothing gives the not-found result.
\<close>

theorem verify_against_properties_converts_exceptions:
  assumes "\<And>m. fetch stmt_uri \<noteq> Inl (BaseException m)"
  shows "(\<exists>r. verify_against_properties fetch stmt_uri digest creator space_uri schema_uri = Inr r)
    \<and> (\<forall>m. verify_try (fetch stmt_uri) stmt_uri digest creator space_uri schema_uri = Inl (Exception m)
          \<longrightarrow> verify_against_properties fetch stmt_uri digest creator space_uri schema_uri =
                Inr (invalid (''Error verifying properties: '' @ m)))
    \<and> (\<forall>m. fetch stmt_uri = Inl (Exception m)
          \<longrightarrow> verify_against_properties fetch stmt_uri digest creator space_uri schema_uri =
                Inr (invalid (''Error verifying properties: '' @ m)))
    \<and> (fetch stmt_uri = Inr None
          \<longrightarrow> verify_against_properties fetch stmt_uri digest creator space_uri schema_uri =
                Inr (invalid (''Statement details for '' @ [CHR 0x22] @ digest @ [CHR 0x22] @ '' not found.'')))
    \<and> (\<forall>d. fetch stmt_uri = Inr (Some d) \<and> d \<noteq> [] \<and> map_of d ''digest'' = None
          \<longrightarrow> verify_against_properties fetch stmt_uri digest creator space_uri schema_uri =
                Inr (invalid (''Error verifying properties: '' @ [CHR 0x27] @ ''digest'' @ [CHR 0x27])))"
proof (intro conjI allI impI)
  show "\<exists>r. verify_against_properties fetch stmt_uri digest creator space_uri schema_uri = Inr r"
  proof (cases "verify_try (fetch stmt_uri) stmt_uri digest creator space_uri schema_uri")
    case (Inr r)
    then show ?thesis by (simp add: verify_against_properties_def)
  next
    case (Inl e)
    from verify_try_raises_fetch_or_key_error [OF Inl] assms
    obtain m where "e = Exception m"
      by (cases e) (auto simp: key_error_def)
    with Inl show ?thesis by (simp add: verify_against_properties_def)
  qed
next
  fix m
  assume "verify_try (fetch stmt_uri) stmt_uri digest creator space_uri schema_uri = Inl (Exception m)"
  then show "verify_against_properties fetch stmt_uri digest creator space_uri schema_uri =
                Inr (invalid (''Error verifying properties: '' @ m))"
    by (simp add: verify_against_properties_def)
next
  fix m
  assume "fetch stmt_uri = Inl (Exception m)"
  then show "verify_against_properties fetch stmt_uri digest creator space_uri schema_uri =
                Inr (invalid (''Error verifying properties: '' @ m))"
    by (simp add: verify_against_properties_def verify_try_def)
next
  assume "fetch stmt_uri = Inr None"
  then show "verify_against_properties fetch stmt_uri digest creator space_uri schema_uri =
                Inr (invalid (''Statement details for '' @ [CHR 0x22] @ digest @ [CHR 0x22] @ '' not found.''))"
    by (simp add: verify_against_properties_def verify_try_def)
next
  fix d
  assume "fetch stmt_uri = Inr (Some d) \<and> d \<noteq> [] \<and> map_of d ''digest'' = None"
  then show "verify_against_properties fetch stmt_uri digest creator space_uri schema_uri =
                Inr (invalid (''Error verifying properties: '' @ [CHR 0x27] @ ''digest'' @ [CHR 0x27]))"
    by (simp add: verify_against_properties_def verify_try_def status_item_def key_error_def)
qed

text \<open>
  A fetch that raises, and a remote record without \<open>digest\<close>.
\<close>

theorem verify_against_properties_converts_exceptions_witness:
  "verify_against_properties (\<lambda>uri. Inl (Exception ''connection lost''))
      ''stmt:cord:s1'' ''0xAA'' None None None
     = Inr \<lparr>is_valid = False, message = ''Error verifying properties: connection lost''\<rparr>
   \<and> verify_against_properties (\<lambda>uri. Inr (Some [(''revoked'', PBool False)]))
      ''stmt:cord:s1'' ''0xAA'' None None None
     = Inr \<lparr>is_valid = False, message = ''Error verifying properties: '' @ [CHR 0x27] @ ''digest'' @ [CHR 0x27]\<rparr>"
  using verify_against_properties_converts_exceptions
      [of "\<lambda>uri. Inl (Exception ''connection lost'')" "''stmt:cord:s1''" "''0xAA''" None None None]
    verify_against_properties_converts_exceptions
      [of "\<lambda>uri. Inr (Some [(''revoked'', PBool False)])" "''stmt:cord:s1''" "''0xAA''" None None None]
  by (simp add: invalid_def)

subsection \<open>The creator check\<close>

text \<open>
  C3, as stated, fails for the empty string: \<open>if creator:\<close> treats it as not supplied,
  so a record found, matching in digest and not revoked is reported valid although its
  creator differs from the empty string.
\<close>

theorem verify_against_properties_empty_creator_counterexample:
  "verify_against_properties
     (\<lambda>uri. Inr (Some [(''digest'', PStr ''0xAA''), (''creator_uri'', PStr ''did:c1''),
                        (''space_uri'', PStr ''space:s1''), (''schema_uri'', PStr ''schema:x''),
                        (''revoked'', PBool False)]))
     ''stmt:cord:s1'' ''0xAA'' (Some '''') None None
   = Inr \<lparr>is_valid = True,
          message = ''Digest properties provided are valid and match the statement details.''\<rparr>
   \<and> PStr '''' \<noteq> PStr ''did:c1''"
  by (simp add: verify_against_properties_def verify_try_def status_item_def dict_get_def
        supplied_def arg_value_def valid_def)

text \<open>
  C3, amended. For every non-empty creator: if the remote record is found, the digests
  match, the record is not revoked and the creator differs from the remote
  \<open>creator_uri\<close>, the result is
  \<open>{is_valid: false, message: "Statement and Digest creator does not match."}\<close>.
\<close>

theorem verify_against_properties_creator_mismatch:
  assumes "fetch stmt_uri = Inr (Some d)" and "d \<noteq> []"
    and "map_of d ''digest'' = Some (PStr digest)"
    and "\<not> truthy (dict_get d ''revoked'')"
    and "map_of d ''creator_uri'' = Some remote_creator"
    and "creator \<noteq> []"
    and "PStr creator \<noteq> remote_creator"
  shows "verify_against_properties fetch stmt_uri digest (Some creator) space_uri schema_uri =
     Inr \<lparr>is_valid = False, message = ''Statement and Digest creator does not match.''\<rparr>"
proof -
  have "supplied (Some creator)" "arg_value (Some creator) \<noteq> remote_creator"
    using assms(6,7) by (simp_all add: supplied_def arg_value_def)
  then have "verify_try (fetch stmt_uri) stmt_uri digest (Some creator) space_uri schema_uri =
      Inr (invalid ''Statement and Digest creator does not match.'')"
    unfolding assms(1) using assms(2-5) by (intro verify_try_creator_mismatch)
  then show ?thesis
    by (simp add: verify_against_of_try invalid_def)
qed

text \<open>
  The record of the spec's examples, asked about another creator.
\<close>

theorem verify_against_properties_creator_mismatch_witness:
  "verify_against_properties
     (\<lambda>uri. Inr (Some [(''digest'', PStr ''0xAA''), (''creator_uri'', PStr ''did:c1''),
                        (''space_uri'', PStr ''space:s1''), (''schema_uri'', PStr ''schema:x''),
                        (''revoked'', PBool False)]))
     ''stmt:cord:s1'' ''0xAA'' (Some ''did:c2'') None None
   = Inr \<lparr>is_valid = False, message = ''Statement and Digest creator does not match.''\<rparr>"
  using verify_against_properties_creator_mismatch
    [of "\<lambda>uri. Inr (Some [(''digest'', PStr ''0xAA''), (''creator_uri'', PStr ''did:c1''),
                        (''space_uri'', PStr ''space:s1''), (''schema_uri'', PStr ''schema:x''),
                        (''revoked'', PBool False)])"
        "''stmt:cord:s1''"
        "[(''digest'', PStr ''0xAA''), (''creator_uri'', PStr ''did:c1''),
                        (''space_uri'', PStr ''space:s1''), (''schema_uri'', PStr ''schema:x''),
                        (''revoked'', PBool False)]"
        "''0xAA''" "PStr ''did:c1''" "''did:c2''" None None]
  by (simp add: dict_get_def)

section \<open>Properties of the statement builders and the shape check\<close>

subsection \<open>build_from_properties\<close>




subsection \<open>build_from_update_properties\<close>

text \<open>
  C5. Two calls of \<open>build_from_update_properties\<close> with the same old URI and digest
  that both return a record give the same \<open>element_uri\<close>, whatever the space and creator
  are: it is what \<open>update_statement_uri\<close> derives from the old URI and the digest.
\<close>

theorem build_from_update_properties_element_uri:
  assumes "build_from_update_properties update_uri wf_id is_hex stmt_uri digest space1 creator1 = Inr r1"
    and "build_from_update_properties update_uri wf_id is_hex stmt_uri digest space2 creator2 = Inr r2"
  shows "\<exists>u. update_uri stmt_uri digest = Inr u
           \<and> subscript r1 ''element_uri'' = Inr (PStr u)
           \<and> subscript r2 ''element_uri'' = Inr (PStr u)"
  using assms
  by (auto simp: build_from_update_properties_def subscript_def Let_def split: sum.splits)

text \<open>
  Two updates of one statement under different spaces and creators.
\<close>
theorem build_from_update_properties_element_uri_witness:
  "build_from_update_properties (\<lambda>old d. Inr (old @ '':'' @ d)) (\<lambda>v. v \<noteq> PNone) (\<lambda>v n. n = 256)
      ''stmt:cord:s1'' ''0xBB'' ''space:cord:c1'' ''did:cord:3abc''
     = Inr [(''element_uri'', PStr ''stmt:cord:s1:0xBB''), (''digest'', PStr ''0xBB''),
            (''creator_uri'', PStr ''did:cord:3abc''), (''space_uri'', PStr ''space:cord:c1'')]
   \<and> build_from_update_properties (\<lambda>old d. Inr (old @ '':'' @ d)) (\<lambda>v. v \<noteq> PNone) (\<lambda>v n. n = 256)
      ''stmt:cord:s1'' ''0xBB'' ''space:cord:c2'' ''did:cord:3xyz''
     = Inr [(''element_uri'', PStr ''stmt:cord:s1:0xBB''), (''digest'', PStr ''0xBB''),
            (''creator_uri'', PStr ''did:cord:3xyz''), (''space_uri'', PStr ''space:cord:c2'')]
   \<and> subscript [(''element_uri'', PStr ''stmt:cord:s1:0xBB''), (''digest'', PStr ''0xBB''),
              (''creator_uri'', PStr ''did:cord:3abc''), (''space_uri'', PStr ''space:cord:c1'')]
      ''element_uri''
     = subscript [(''element_uri'', PStr ''stmt:cord:s1:0xBB''), (''digest'', PStr ''0xBB''),
              (''creator_uri'', PStr ''did:cord:3xyz''), (''space_uri'', PStr ''space:cord:c2'')]
      ''element_uri''"
  using build_from_update_properties_element_uri
    [of "\<lambda>old d. Inr (old @ '':'' @ d)" "\<lambda>v. v \<noteq> PNone" "\<lambda>v n. n = 256" "''stmt:cord:s1''" "''0xBB''"
        "''space:cord:c1''" "''did:cord:3abc''"
        "[(''element_uri'', PStr ''stmt:cord:s1:0xBB''), (''digest'', PStr ''0xBB''),
          (''creator_uri'', PStr ''did:cord:3abc''), (''space_uri'', PStr ''space:cord:c1'')]"
        "''space:cord:c2''" "''did:cord:3xyz''"
        "[(''element_uri'', PStr ''stmt:cord:s1:0xBB''), (''digest'', PStr ''0xBB''),
          (''creator_uri'', PStr ''did:cord:3xyz''), (''space_uri'', PStr ''space:cord:c2'')]"]
  by (simp add: build_from_update_properties_def verify_data_structure_def subscript_def
        check_identifier_def verify_is_hex_def)

subsection \<open>verify_data_structure\<close>

text \<open>
  C6. \<open>verify_data_structure\<close> fails with \<open>StatementHashMissingError\<close> exactly when the
  key \<open>digest\<close> is absent from the input, whatever the other keys and values are.
\<close>

theorem verify_data_structure_hash_missing_iff:
  "(verify_data_structure wf_id is_hex input = Inl StatementHashMissingError)
     = (map_of input ''digest'' = None)"
  by (auto simp: verify_data_structure_def subscript_def check_identifier_def
        verify_is_hex_def dict_get_def split: option.splits sum.splits if_splits)

text \<open>
  An input without \<open>digest\<close> and otherwise in order, and an input with \<open>digest\<close> and
  nothing else in order.
\<close>

theorem verify_data_structure_hash_missing_iff_witness:
  "verify_data_structure (\<lambda>v. v = PStr ''space:cord:s1'') (\<lambda>v n. True)
      [(''space_uri'', PStr ''space:cord:s1''), (''schema_uri'', PStr ''schema:cord:x'')]
     = Inl StatementHashMissingError
   \<and> verify_data_structure (\<lambda>v. v = PStr ''space:cord:s1'') (\<lambda>v n. False)
      [(''digest'', PStr ''zz''), (''space_uri'', PStr ''not a uri'')]
     \<noteq> Inl StatementHashMissingError"
  using verify_data_structure_hash_missing_iff
    [of "\<lambda>v. v = PStr ''space:cord:s1''" "\<lambda>v n. True"
        "[(''space_uri'', PStr ''space:cord:s1''), (''schema_uri'', PStr ''schema:cord:x'')]"]
    verify_data_structure_hash_missing_iff
    [of "\<lambda>v. v = PStr ''space:cord:s1''" "\<lambda>v n. False"
        "[(''digest'', PStr ''zz''), (''space_uri'', PStr ''not a uri'')]"]
  by simp

text \<open>
  C9. An input that holds the key \<open>digest\<close> and not the key \<open>space_uri\<close> makes
  \<open>verify_data_structure\<close> raise the \<open>KeyError\<close> of \<open>input['space_uri']\<close>, neither
  \<open>StatementHashMissingError\<close> nor \<open>InvalidIdentifierError\<close>.
\<close>

theorem verify_data_structure_space_uri_key_error:
  assumes "map_of input ''digest'' \<noteq> None" and "map_of input ''space_uri'' = None"
  shows "verify_data_structure wf_id is_hex input = Inl (KeyError ''space_uri'')"
  using assms by (simp add: verify_data_structure_def subscript_def)

text \<open>
  An input with a digest and no space.
\<close>

theorem verify_data_structure_space_uri_key_error_witness:
  "verify_data_structure (\<lambda>v. True) (\<lambda>v n. True) [(''digest'', PStr ''0xaa''), (''schema_uri'', PNone)]
     = Inl (KeyError ''space_uri'')"
  using verify_data_structure_space_uri_key_error
    [of "[(''digest'', PStr ''0xaa''), (''schema_uri'', PNone)]" "\<lambda>v. True" "\<lambda>v n. True"]
  by simp

section \<open>Properties of the connection management\<close>

subsection \<open>Auxiliary facts about disconnect\<close>

lemma map_of_filter_key: "map_of (filter (\<lambda>kv. fst kv \<noteq> k) xs) k = None"
  by (induction xs) auto

lemma disconnect_unset:
  "map_of (config p) ''api'' = None \<Longrightarrow> disconnect p = (Inr False, p)"
  by (simp add: disconnect_def ConfigService_is_set_def)

lemma disconnect_set:
  "map_of (config p) ''api'' = Some h \<Longrightarrow>
   disconnect p = (Inr True, p\<lparr>config := filter (\<lambda>kv. fst kv \<noteq> ''api'') (config p),
                               closed := closed p @ [h]\<rparr>)"
  by (simp add: disconnect_def ConfigService_is_set_def ConfigService_get_def
        ConfigService_unset_def close_def)

subsection \<open>disconnect\<close>

text \<open>
  C7. \<open>disconnect\<close> never raises: it returns whether a handle was stored under
  \<open>api\<close>. With none stored it returns false and leaves the process as it is; with one
  stored it removes the entry, closes the handle and returns true, after which no handle
  is stored, so that a second call in a row returns false and changes nothing.
\<close>

theorem disconnect_never_raises:
  "fst (disconnect p) = Inr (map_of (config p) ''api'' \<noteq> None)
   \<and> (map_of (config p) ''api'' = None \<longrightarrow> disconnect p = (Inr False, p))
   \<and> (\<forall>h. map_of (config p) ''api'' = Some h \<longrightarrow>
         disconnect p = (Inr True, p\<lparr>config := filter (\<lambda>kv. fst kv \<noteq> ''api'') (config p),
                                     closed := closed p @ [h]\<rparr>)
         \<and> map_of (config (snd (disconnect p))) ''api'' = None
         \<and> disconnect (snd (disconnect p)) = (Inr False, snd (disconnect p)))"
proof (cases "map_of (config p) ''api''")
  case None
  then show ?thesis by (simp add: disconnect_unset)
next
  case (Some h)
  have gone: "map_of (config (snd (disconnect p))) ''api'' = None"
    by (simp add: disconnect_set [OF Some] map_of_filter_key)
  show ?thesis
    using Some disconnect_unset [OF gone] gone by (simp add: disconnect_set [OF Some])
qed

text \<open>
  A connected process disconnected twice, and a process that never connected.
\<close>

theorem disconnect_never_raises_witness:
  "disconnect \<lparr>config = [(''api'', 7), (''network'', 3)], closed = [], log = []\<rparr>
     = (Inr True, \<lparr>config = [(''network'', 3)], closed = [7], log = []\<rparr>)
   \<and> disconnect (snd (disconnect \<lparr>config = [(''api'', 7), (''network'', 3)], closed = [], log = []\<rparr>))
     = (Inr False, \<lparr>config = [(''network'', 3)], closed = [7], log = []\<rparr>)
   \<and> disconnect \<lparr>config = [], closed = [], log = []\<rparr>
     = (Inr False, \<lparr>config = [], closed = [], log = []\<rparr>)"
  using disconnect_never_raises [of "\<lparr>config = [(''api'', 7), (''network'', 3)], closed = [], log = []\<rparr>"]
    disconnect_never_raises [of "\<lparr>config = [], closed = [], log = []\<rparr>"]
  by (simp add: disconnect_def ConfigService_is_set_def)

subsection \<open>connect\<close>

text \<open>
  C8, as stated, fails: a \<open>connect\<close> that fails leaves the configuration as it was, so
  after an earlier successful \<open>connect\<close> the \<open>api\<close> entry is still there and
  \<open>disconnect\<close> returns true; and an error that is not a \<open>SubstrateRequestException\<close>
  (here the one of loading the type registry file) reaches the caller without being
  logged.
\<close>

theorem connect_failure_counterexample:
  "connect (\<lambda>path. Inl (OtherError ''No such file or directory: custom-type.json'') :: conn_exc + unit)
       (\<lambda>url opts reg. Inr 8) ''ws://127.0.0.1:9944'' True ()
       \<lparr>config = [(''api'', 7)], closed = [], log = []\<rparr>
     = (Inl (OtherError ''No such file or directory: custom-type.json''),
        \<lparr>config = [(''api'', 7)], closed = [], log = []\<rparr>)
   \<and> map_of (config \<lparr>config = [(''api'', 7)], closed = [], log = []\<rparr>) ''api'' = Some 7
   \<and> fst (disconnect \<lparr>config = [(''api'', 7)], closed = [], log = []\<rparr>) = Inr True
   \<and> log \<lparr>config = [(''api'', 7)], closed = [], log = []\<rparr> = []"
  by (simp add: connect_def disconnect_def ConfigService_is_set_def ConfigService_get_def
        ConfigService_unset_def close_def)

text \<open>
  C8, amended. When \<open>connect\<close> fails, because loading the type registry raises or the
  transport rejects the connection attempt, the error reaches the caller and the
  configuration is left as it was before the call; the error is logged first when it is a
  \<open>SubstrateRequestException\<close>, and nothing at all changes otherwise. If no \<open>api\<close> entry
  was stored before the call, none is stored after it, and a subsequent \<open>disconnect\<close>
  returns false.
\<close>

theorem connect_failure_leaves_config:
  assumes "load_type_registry_file ''custom-type.json'' = Inl e
     \<or> (\<exists>custom_type. load_type_registry_file ''custom-type.json'' = Inr custom_type
           \<and> substrate_interface url api_options custom_type = Inl e)"
  shows "connect load_type_registry_file substrate_interface url no_init_warn api_options p =
      (Inl e,
       case e of
         SubstrateRequestException m \<Rightarrow> p\<lparr>log := log p @ [''Error connecting to blockchain: '' @ m]\<rparr>
       | OtherError m \<Rightarrow> p)
    \<and> config (snd (connect load_type_registry_file substrate_interface url no_init_warn api_options p))
        = config p
    \<and> closed (snd (connect load_type_registry_file substrate_interface url no_init_warn api_options p))
        = closed p
    \<and> (map_of (config p) ''api'' = None \<longrightarrow>
         map_of (config (snd (connect load_type_registry_file substrate_interface url no_init_warn
                                api_options p))) ''api'' = None
         \<and> disconnect (snd (connect load_type_registry_file substrate_interface url no_init_warn
                                api_options p))
             = (Inr False, snd (connect load_type_registry_file substrate_interface url no_init_warn
                                api_options p)))"
proof -
  have raised: "(case load_type_registry_file ''custom-type.json'' of
             Inl e \<Rightarrow> Inl e
           | Inr custom_type \<Rightarrow> substrate_interface url api_options custom_type) = Inl e"
    using assms by auto
  have result: "connect load_type_registry_file substrate_interface url no_init_warn api_options p =
      (Inl e,
       case e of
         SubstrateRequestException m \<Rightarrow> p\<lparr>log := log p @ [''Error connecting to blockchain: '' @ m]\<rparr>
       | OtherError m \<Rightarrow> p)"
    unfolding connect_def raised by (cases e) simp_all
  have cfg: "config (snd (connect load_type_registry_file substrate_interface url no_init_warn
                            api_options p)) = config p"
    unfolding result by (cases e) simp_all
  have cl: "closed (snd (connect load_type_registry_file substrate_interface url no_init_warn
                            api_options p)) = closed p"
    unfolding result by (cases e) simp_all
  have after: "disconnect (snd (connect load_type_registry_file substrate_interface url no_init_warn
                                api_options p))
             = (Inr False, snd (connect load_type_registry_file substrate_interface url no_init_warn
                                api_options p))"
    if "map_of (config p) ''api'' = None"
    by (rule disconnect_unset) (simp add: cfg that)
  show ?thesis
    using result cfg cl after by simp
qed

text \<open>
  The transport rejects the first connection of a process, and the type registry file of
  another cannot be loaded.
\<close>

theorem connect_failure_leaves_config_witness:
  "connect (\<lambda>path. Inr () :: conn_exc + unit)
       (\<lambda>url opts reg. Inl (SubstrateRequestException ''connection refused''))
       ''ws://127.0.0.1:9944'' True () \<lparr>config = [], closed = [], log = []\<rparr>
     = (Inl (SubstrateRequestException ''connection refused''),
        \<lparr>config = [], closed = [],
         log = [''Error connecting to blockchain: connection refused'']\<rparr>)
   \<and> disconnect \<lparr>config = [], closed = [],
         log = [''Error connecting to blockchain: connection refused'']\<rparr>
     = (Inr False, \<lparr>config = [], closed = [],
         log = [''Error connecting to blockchain: connection refused'']\<rparr>)
   \<and> connect (\<lambda>path. Inl (OtherError ''No such file or directory: custom-type.json'') :: conn_exc + unit)
       (\<lambda>url opts reg. Inr 8) ''ws://127.0.0.1:9944'' True ()
       \<lparr>config = [(''network'', 3)], closed = [], log = []\<rparr>
     = (Inl (OtherError ''No such file or directory: custom-type.json''),
        \<lparr>config = [(''network'', 3)], closed = [], log = []\<rparr>)"
  using connect_failure_leaves_config
    [of "\<lambda>path. Inr () :: conn_exc + unit"
        "SubstrateRequestException ''connection refused''"
        "\<lambda>url opts reg. Inl (SubstrateRequestException ''connection refused'')"
        "''ws://127.0.0.1:9944''" "()" True "\<lparr>config = [], closed = [], log = []\<rparr>"]
    connect_failure_leaves_config
    [of "\<lambda>path. Inl (OtherError ''No such file or directory: custom-type.json'') :: conn_exc + unit"
        "OtherError ''No such file or directory: custom-type.json''"
        "\<lambda>url opts reg. Inr 8"
        "''ws://127.0.0.1:9944''" "()" True "\<lparr>config = [(''network'', 3)], closed = [], log = []\<rparr>"]
  by (simp add: connect_def disconnect_def ConfigService_is_set_def)

text \<open>
  C10. After a successful \<open>connect\<close> the configuration is exactly the single entry
  \<open>{'api': handle}\<close>: \<open>connect\<close> stores the handle through \<open>init\<close>, which replaces
  the configuration, so the keys of an earlier \<open>init\<close> are gone.
\<close>

theorem connect_success_config:
  assumes "connect load_type_registry_file substrate_interface url no_init_warn api_options p = (Inr h, p')"
  shows "config p' = [(''api'', h)] \<and> closed p' = closed p \<and> log p' = log p"
  using assms
  by (auto simp: connect_def init_def ConfigService_set_def split: sum.splits conn_exc.splits)

text \<open>
  A process configured by \<open>init\<close> with two keys, then connected.
\<close>

theorem connect_success_config_witness:
  "connect (\<lambda>path. Inr () :: conn_exc + unit) (\<lambda>url opts reg. Inr 8)
       ''ws://127.0.0.1:9944'' True ()
       (init (Some [(''network'', 3), (''api'', 7)]) \<lparr>config = [], closed = [], log = []\<rparr>)
     = (Inr 8, \<lparr>config = [(''api'', 8)], closed = [], log = []\<rparr>)"
  using connect_success_config
    [of "\<lambda>path. Inr () :: conn_exc + unit" "\<lambda>url opts reg. Inr 8"
        "''ws://127.0.0.1:9944''" True "()"
        "init (Some [(''network'', 3), (''api'', 7)]) \<lparr>config = [], closed = [], log = []\<rparr>"
        8 "\<lparr>config = [(''api'', 8)], closed = [], log = []\<rparr>"]
  by (simp add: connect_def init_def ConfigService_set_def)

end
